theory Spec2Isabelle
  imports Complex_Main "HOL-Library.Signed_Division"
begin

section \<open>The Prometheus collector plugin of hystrix-go\<close>

text \<open>
  The development follows \<^verbatim>\<open>plugins/prometheus_collector.go\<close>. The plugin owns eleven
  labelled metric vectors of the Prometheus client library, registers them with a registry
  and hands out one \<^verbatim>\<open>cmdCollector\<close> per command name, whose methods forward to the vector
  of the matching kind under the label value of the command.

  Conventions of the embedding:
  \<^item> Go's \<^verbatim>\<open>float64\<close> is read as \<^typ>\<open>real\<close>: sums of observations are exact here, where the
    program rounds.
  \<^item> \<^verbatim>\<open>time.Duration\<close> is a number of nanoseconds (\<^typ>\<open>int\<close>; the program's is 64 bits wide,
    and \<^verbatim>\<open>Seconds\<close> only divides it).
  \<^item> Every pointer of the program (the vectors inside the collector, the collector inside
    a \<^verbatim>\<open>cmdCollector\<close>) points to one shared object; the object is passed in and returned.
  \<^item> A panic is the \<open>Inl\<close> of a result; where the state left behind by the panic matters
    (registration) it is returned next to the result.
\<close>

subsection \<open>The client library, as far as the plugin calls it\<close>

type_synonym float64 = real

type_synonym Duration = int

datatype error =
    RegistrationConflict string
  | CounterDecrease

text \<open>\<^verbatim>\<open>Duration.Seconds\<close>: whole seconds and the remaining nanoseconds, both by Go's
  truncating division, added as floating-point numbers.\<close>

definition Second :: Duration where
  "Second = 1000000000"

definition Seconds :: "Duration \<Rightarrow> float64" where
  "Seconds d =
     (let sec = d sdiv Second;
          nsec = d smod Second
      in real_of_int sec + real_of_int nsec / 1000000000)"

text \<open>A descriptor: the fully-qualified name, the help text and the label names.\<close>

record Desc =
  fqName :: string
  helpString :: string
  variableLabels :: "string list"

record Opts =
  Namespace :: string
  Name :: string
  Help :: string

record HistogramOpts = Opts +
  Buckets :: "float64 list"

definition BuildFQName :: "string \<Rightarrow> string \<Rightarrow> string \<Rightarrow> string" where
  "BuildFQName namespace subsystem name =
     (if name = [] then []
      else if namespace \<noteq> [] \<and> subsystem \<noteq> [] then namespace @ ''_'' @ subsystem @ ''_'' @ name
      else if namespace \<noteq> [] then namespace @ ''_'' @ name
      else if subsystem \<noteq> [] then subsystem @ ''_'' @ name
      else name)"

text \<open>
  A metric vector: its descriptor and the children (the accumulators) by label value. All
  vectors of the plugin are declared with the single label \<^verbatim>\<open>command\<close> and are always
  addressed with a single label value, so a child's key is one string. A histogram vector
  also keeps the bucket bounds its children are made with.
\<close>

record 'a MetricVec =
  desc :: Desc
  children :: "string \<rightharpoonup> 'a"

record Histogram =
  upperBounds :: "float64 list"
  hist_counts :: "nat list"
  hist_sum :: float64
  hist_count :: nat

record HistogramVec = "Histogram MetricVec" +
  buckets :: "float64 list"

type_synonym CounterVec = "float64 MetricVec"
type_synonym GaugeVec = "float64 MetricVec"

definition DefBuckets :: "float64 list" where
  "DefBuckets = [0.005, 0.01, 0.025, 0.05, 0.1, 0.25, 0.5, 1, 2.5, 5, 10]"

text \<open>What a vector makes for a label value it has no child for: a counter or a gauge at
  zero, a histogram with no observation.\<close>

definition newCounter :: float64 where
  "newCounter = 0"

definition newGauge :: float64 where
  "newGauge = 0"

definition newHistogram :: "float64 list \<Rightarrow> Histogram" where
  "newHistogram bs =
     \<lparr>upperBounds = bs, hist_counts = replicate (length bs) 0, hist_sum = 0, hist_count = 0\<rparr>"

definition NewCounterVec :: "Opts \<Rightarrow> string list \<Rightarrow> CounterVec" where
  "NewCounterVec opts labelNames =
     \<lparr>desc = \<lparr>fqName = BuildFQName (Namespace opts) [] (Name opts),
              helpString = Help opts, variableLabels = labelNames\<rparr>,
      children = Map.empty\<rparr>"

definition NewGaugeVec :: "Opts \<Rightarrow> string list \<Rightarrow> GaugeVec" where
  "NewGaugeVec opts labelNames =
     \<lparr>desc = \<lparr>fqName = BuildFQName (Namespace opts) [] (Name opts),
              helpString = Help opts, variableLabels = labelNames\<rparr>,
      children = Map.empty\<rparr>"

text \<open>An empty bucket list stands for the default buckets. The library asks for strictly
  increasing bounds; bounds that are not are outside this model.\<close>

definition NewHistogramVec :: "HistogramOpts \<Rightarrow> string list \<Rightarrow> HistogramVec" where
  "NewHistogramVec opts labelNames =
     \<lparr>desc = \<lparr>fqName = BuildFQName (Namespace opts) [] (Name opts),
              helpString = Help opts, variableLabels = labelNames\<rparr>,
      children = Map.empty,
      buckets = (if Buckets opts = [] then DefBuckets else Buckets opts)\<rparr>"

text \<open>\<^verbatim>\<open>WithLabelValues\<close> returns the child of a label value and creates it first when
  there is none. The child is a pointer into the vector, so a method called on it is an
  update of the vector at that label value.\<close>

definition WithLabelValues ::
  "'a \<Rightarrow> string \<Rightarrow> ('a, 'b) MetricVec_scheme \<Rightarrow> 'a \<times> ('a, 'b) MetricVec_scheme" where
  "WithLabelValues newMetric lv v =
     (case children v lv of
        Some m \<Rightarrow> (m, v)
      | None \<Rightarrow> (newMetric, v\<lparr>children := (children v)(lv \<mapsto> newMetric)\<rparr>))"

definition store :: "string \<Rightarrow> 'a \<Rightarrow> ('a, 'b) MetricVec_scheme \<Rightarrow> ('a, 'b) MetricVec_scheme" where
  "store lv m v = v\<lparr>children := (children v)(lv \<mapsto> m)\<rparr>"

text \<open>A counter cannot decrease: \<^verbatim>\<open>Add\<close> panics on a negative value.\<close>

definition Counter_Add :: "float64 \<Rightarrow> float64 \<Rightarrow> error + float64" where
  "Counter_Add x c = (if x < 0 then Inl CounterDecrease else Inr (c + x))"

definition Counter_Inc :: "float64 \<Rightarrow> float64" where
  "Counter_Inc c = c + 1"

definition Gauge_Set :: "float64 \<Rightarrow> float64 \<Rightarrow> float64" where
  "Gauge_Set x g = x"

text \<open>\<^verbatim>\<open>Observe\<close>: the bucket of a value is the first one whose upper bound is not below
  it (none when the value is above every bound); its count, the sum and the total count
  grow.\<close>

definition findBucket :: "float64 list \<Rightarrow> float64 \<Rightarrow> nat" where
  "findBucket bs x = length (takeWhile (\<lambda>b. b < x) bs)"

definition Histogram_Observe :: "float64 \<Rightarrow> Histogram \<Rightarrow> Histogram" where
  "Histogram_Observe x h =
     (let i = findBucket (upperBounds h) x
      in h\<lparr>hist_counts :=
             (if i < length (upperBounds h) then (hist_counts h)[i := hist_counts h ! i + 1]
              else hist_counts h),
           hist_sum := hist_sum h + x,
           hist_count := hist_count h + 1\<rparr>)"

text \<open>The four calls the plugin makes on a vector.\<close>

definition vec_Add :: "string \<Rightarrow> float64 \<Rightarrow> CounterVec \<Rightarrow> error + CounterVec" where
  "vec_Add lv x v =
     (case WithLabelValues newCounter lv v of
        (c, v') \<Rightarrow> (case Counter_Add x c of Inl e \<Rightarrow> Inl e | Inr c' \<Rightarrow> Inr (store lv c' v')))"

definition vec_Inc :: "string \<Rightarrow> CounterVec \<Rightarrow> CounterVec" where
  "vec_Inc lv v = (case WithLabelValues newCounter lv v of (c, v') \<Rightarrow> store lv (Counter_Inc c) v')"

definition vec_Set :: "string \<Rightarrow> float64 \<Rightarrow> GaugeVec \<Rightarrow> GaugeVec" where
  "vec_Set lv x v = (case WithLabelValues newGauge lv v of (g, v') \<Rightarrow> store lv (Gauge_Set x g) v')"

definition vec_Observe :: "string \<Rightarrow> float64 \<Rightarrow> HistogramVec \<Rightarrow> HistogramVec" where
  "vec_Observe lv x v =
     (case WithLabelValues (newHistogram (buckets v)) lv v of
        (h, v') \<Rightarrow> store lv (Histogram_Observe x h) v')"

text \<open>
  A registry holds the descriptors of the collectors registered with it. \<^verbatim>\<open>Register\<close>
  refuses a collector whose fully-qualified name is already there; \<^verbatim>\<open>MustRegister\<close>
  registers its arguments in order and panics at the first one refused, keeping the ones
  registered before it.
\<close>

type_synonym Registry = "Desc list"

definition Register :: "Desc \<Rightarrow> Registry \<Rightarrow> error + Registry" where
  "Register d r =
     (if fqName d \<in> set (map fqName r) then Inl (RegistrationConflict (fqName d))
      else Inr (r @ [d]))"

fun MustRegister :: "Desc list \<Rightarrow> Registry \<Rightarrow> (error + unit) \<times> Registry" where
  "MustRegister [] r = (Inr (), r)"
| "MustRegister (c # cs) r =
     (case Register c r of
        Inl e \<Rightarrow> (Inl e, r)
      | Inr r' \<Rightarrow> MustRegister cs r')"

text \<open>The registries of the process: the default one of the library and the ones the
  callers made, by reference.\<close>

record World =
  DefaultRegisterer :: Registry
  registries :: "nat \<Rightarrow> Registry"

subsection \<open>The collector\<close>

definition PROMETHEUS_NAMESPACE :: string where
  "PROMETHEUS_NAMESPACE = ''hystrix_go''"

record PrometheusCollector =
  attempts :: CounterVec
  errors :: CounterVec
  successes :: CounterVec
  failures :: CounterVec
  rejects :: CounterVec
  shortCircuits :: CounterVec
  timeouts :: CounterVec
  fallbackSuccesses :: CounterVec
  fallbackFailures :: CounterVec
  totalDuration :: GaugeVec
  runDuration :: HistogramVec

text \<open>The struct literal of the constructor: the eleven vectors, new.\<close>

definition newVecs :: "float64 list \<Rightarrow> PrometheusCollector" where
  "newVecs duration_buckets =
     \<lparr>attempts = NewCounterVec
        \<lparr>Namespace = PROMETHEUS_NAMESPACE, Name = ''attempts'',
         Help = ''The number of updates.''\<rparr> [''command''],
      errors = NewCounterVec
        \<lparr>Namespace = PROMETHEUS_NAMESPACE, Name = ''errors'',
         Help = ''The number of unsuccessful attempts. Attempts minus Errors will equal successes within a time range. Errors are any result from an attempt that is not a success.''\<rparr>
        [''command''],
      successes = NewCounterVec
        \<lparr>Namespace = PROMETHEUS_NAMESPACE, Name = ''successes'',
         Help = ''The number of requests that succeed.''\<rparr> [''command''],
      failures = NewCounterVec
        \<lparr>Namespace = PROMETHEUS_NAMESPACE, Name = ''failures'',
         Help = ''The number of requests that fail.''\<rparr> [''command''],
      rejects = NewCounterVec
        \<lparr>Namespace = PROMETHEUS_NAMESPACE, Name = ''rejects'',
         Help = ''The number of requests that are rejected.''\<rparr> [''command''],
      shortCircuits = NewCounterVec
        \<lparr>Namespace = PROMETHEUS_NAMESPACE, Name = ''short_circuits'',
         Help = ''The number of requests that short circuited due to the circuit being open.''\<rparr>
        [''command''],
      timeouts = NewCounterVec
        \<lparr>Namespace = PROMETHEUS_NAMESPACE, Name = ''timeouts'',
         Help = ''The number of requests that are timeouted in the circuit breaker.''\<rparr>
        [''command''],
      fallbackSuccesses = NewCounterVec
        \<lparr>Namespace = PROMETHEUS_NAMESPACE, Name = ''fallback_successes'',
         Help = ''The number of successes that occurred during the execution of the fallback function.''\<rparr>
        [''command''],
      fallbackFailures = NewCounterVec
        \<lparr>Namespace = PROMETHEUS_NAMESPACE, Name = ''fallback_failures'',
         Help = ''The number of failures that occurred during the execution of the fallback function.''\<rparr>
        [''command''],
      totalDuration = NewGaugeVec
        \<lparr>Namespace = PROMETHEUS_NAMESPACE, Name = ''total_duration_seconds'',
         Help = ''The total runtime of this command in seconds.''\<rparr> [''command''],
      runDuration = NewHistogramVec
        \<lparr>Namespace = PROMETHEUS_NAMESPACE, Name = ''run_duration_seconds'',
         Help = ''Runtime of the Hystrix command.'',
         Buckets = duration_buckets\<rparr> [''command'']\<rparr>"

text \<open>The constructor. A collector is handed to the registry as its descriptor; the
  world returned is the one the call leaves behind, also when it panics.\<close>

definition NewPrometheusCollector ::
  "nat option \<Rightarrow> float64 list option \<Rightarrow> World \<Rightarrow> (error + PrometheusCollector) \<times> World" where
  "NewPrometheusCollector reg duration_buckets w =
     (let duration_buckets = (case duration_buckets of None \<Rightarrow> DefBuckets | Some bs \<Rightarrow> bs);
          hm = newVecs duration_buckets
      in case reg of
           Some p \<Rightarrow>
             (case MustRegister
                  [desc (attempts hm),
                   desc (errors hm),
                   desc (failures hm),
                   desc (rejects hm),
                   desc (shortCircuits hm),
                   desc (timeouts hm),
                   desc (fallbackSuccesses hm),
                   desc (fallbackFailures hm),
                   desc (totalDuration hm),
                   desc (runDuration hm)]
                  (registries w p) of
                (Inl e, r') \<Rightarrow> (Inl e, w\<lparr>registries := (registries w)(p := r')\<rparr>)
              | (Inr _, r') \<Rightarrow> (Inr hm, w\<lparr>registries := (registries w)(p := r')\<rparr>))
         | None \<Rightarrow>
             (case MustRegister
                  [desc (attempts hm),
                   desc (errors hm),
                   desc (failures hm),
                   desc (rejects hm),
                   desc (shortCircuits hm),
                   desc (timeouts hm),
                   desc (fallbackSuccesses hm),
                   desc (fallbackFailures hm),
                   desc (totalDuration hm),
                   desc (runDuration hm)]
                  (DefaultRegisterer w) of
                (Inl e, r') \<Rightarrow> (Inl e, w\<lparr>DefaultRegisterer := r'\<rparr>)
              | (Inr _, r') \<Rightarrow> (Inr hm, w\<lparr>DefaultRegisterer := r'\<rparr>)))"

text \<open>A \<^verbatim>\<open>cmdCollector\<close> is a command name and a pointer to the collector. The collector
  it points to is the one passed to each of its methods below.\<close>

record cmdCollector =
  commandName :: string

definition seq :: "error + 'a \<Rightarrow> ('a \<Rightarrow> error + 'b) \<Rightarrow> error + 'b" where
  "seq r f = (case r of Inl e \<Rightarrow> Inl e | Inr x \<Rightarrow> f x)"

definition initCounters :: "cmdCollector \<Rightarrow> PrometheusCollector \<Rightarrow> error + PrometheusCollector" where
  "initCounters hc hm =
     seq (vec_Add (commandName hc) 0 (attempts hm)) (\<lambda>v. let hm = hm\<lparr>attempts := v\<rparr> in
     seq (vec_Add (commandName hc) 0 (errors hm)) (\<lambda>v. let hm = hm\<lparr>errors := v\<rparr> in
     seq (vec_Add (commandName hc) 0 (successes hm)) (\<lambda>v. let hm = hm\<lparr>successes := v\<rparr> in
     seq (vec_Add (commandName hc) 0 (failures hm)) (\<lambda>v. let hm = hm\<lparr>failures := v\<rparr> in
     seq (vec_Add (commandName hc) 0 (rejects hm)) (\<lambda>v. let hm = hm\<lparr>rejects := v\<rparr> in
     seq (vec_Add (commandName hc) 0 (shortCircuits hm)) (\<lambda>v. let hm = hm\<lparr>shortCircuits := v\<rparr> in
     seq (vec_Add (commandName hc) 0 (timeouts hm)) (\<lambda>v. let hm = hm\<lparr>timeouts := v\<rparr> in
     seq (vec_Add (commandName hc) 0 (fallbackSuccesses hm)) (\<lambda>v. let hm = hm\<lparr>fallbackSuccesses := v\<rparr> in
     seq (vec_Add (commandName hc) 0 (fallbackFailures hm)) (\<lambda>v. let hm = hm\<lparr>fallbackFailures := v\<rparr> in
     Inr (hm\<lparr>totalDuration := vec_Set (commandName hc) 0 (totalDuration hm)\<rparr>))))))))))"

definition Collector :: "string \<Rightarrow> PrometheusCollector \<Rightarrow> error + cmdCollector \<times> PrometheusCollector" where
  "Collector name hm =
     (let hc = \<lparr>commandName = name\<rparr>
      in case initCounters hc hm of
           Inl e \<Rightarrow> Inl e
         | Inr hm' \<Rightarrow> Inr (hc, hm'))"

definition IncrementAttempts :: "cmdCollector \<Rightarrow> PrometheusCollector \<Rightarrow> PrometheusCollector" where
  "IncrementAttempts hc hm = hm\<lparr>attempts := vec_Inc (commandName hc) (attempts hm)\<rparr>"

definition IncrementErrors :: "cmdCollector \<Rightarrow> PrometheusCollector \<Rightarrow> PrometheusCollector" where
  "IncrementErrors hc hm = hm\<lparr>errors := vec_Inc (commandName hc) (errors hm)\<rparr>"

definition IncrementSuccesses :: "cmdCollector \<Rightarrow> PrometheusCollector \<Rightarrow> PrometheusCollector" where
  "IncrementSuccesses hc hm = hm\<lparr>successes := vec_Inc (commandName hc) (successes hm)\<rparr>"

definition IncrementFailures :: "cmdCollector \<Rightarrow> PrometheusCollector \<Rightarrow> PrometheusCollector" where
  "IncrementFailures hc hm = hm\<lparr>failures := vec_Inc (commandName hc) (failures hm)\<rparr>"

definition IncrementRejects :: "cmdCollector \<Rightarrow> PrometheusCollector \<Rightarrow> PrometheusCollector" where
  "IncrementRejects hc hm = hm\<lparr>rejects := vec_Inc (commandName hc) (rejects hm)\<rparr>"

definition IncrementShortCircuits :: "cmdCollector \<Rightarrow> PrometheusCollector \<Rightarrow> PrometheusCollector" where
  "IncrementShortCircuits hc hm = hm\<lparr>shortCircuits := vec_Inc (commandName hc) (shortCircuits hm)\<rparr>"

definition IncrementTimeouts :: "cmdCollector \<Rightarrow> PrometheusCollector \<Rightarrow> PrometheusCollector" where
  "IncrementTimeouts hc hm = hm\<lparr>timeouts := vec_Inc (commandName hc) (timeouts hm)\<rparr>"

definition IncrementFallbackSuccesses :: "cmdCollector \<Rightarrow> PrometheusCollector \<Rightarrow> PrometheusCollector" where
  "IncrementFallbackSuccesses hc hm =
     hm\<lparr>fallbackSuccesses := vec_Inc (commandName hc) (fallbackSuccesses hm)\<rparr>"

definition IncrementFallbackFailures :: "cmdCollector \<Rightarrow> PrometheusCollector \<Rightarrow> PrometheusCollector" where
  "IncrementFallbackFailures hc hm =
     hm\<lparr>fallbackFailures := vec_Inc (commandName hc) (fallbackFailures hm)\<rparr>"

definition UpdateTotalDuration ::
  "cmdCollector \<Rightarrow> Duration \<Rightarrow> PrometheusCollector \<Rightarrow> PrometheusCollector" where
  "UpdateTotalDuration hc timeSinceStart hm =
     hm\<lparr>totalDuration := vec_Set (commandName hc) (Seconds timeSinceStart) (totalDuration hm)\<rparr>"

definition UpdateRunDuration ::
  "cmdCollector \<Rightarrow> Duration \<Rightarrow> PrometheusCollector \<Rightarrow> PrometheusCollector" where
  "UpdateRunDuration hc d hm =
     hm\<lparr>runDuration := vec_Observe (commandName hc) (Seconds d) (runDuration hm)\<rparr>"

definition Reset :: "cmdCollector \<Rightarrow> PrometheusCollector \<Rightarrow> PrometheusCollector" where
  "Reset hc hm = hm"

subsection \<open>Series, accumulators and runs\<close>

text \<open>The eleven series of a collector by name, and the accumulator a series holds for a
  label value: a number for a counter or the gauge, a histogram for the run durations.
  An export of a series lists exactly the accumulators it holds.\<close>

datatype series =
    Attempts | Errors | Successes | Failures | Rejects | ShortCircuits | Timeouts
  | FallbackSuccesses | FallbackFailures | TotalDuration | RunDuration

datatype sample = Number float64 | Distribution Histogram

fun accumulator :: "series \<Rightarrow> PrometheusCollector \<Rightarrow> string \<Rightarrow> sample option" where
  "accumulator Attempts hm c = map_option Number (children (attempts hm) c)"
| "accumulator Errors hm c = map_option Number (children (errors hm) c)"
| "accumulator Successes hm c = map_option Number (children (successes hm) c)"
| "accumulator Failures hm c = map_option Number (children (failures hm) c)"
| "accumulator Rejects hm c = map_option Number (children (rejects hm) c)"
| "accumulator ShortCircuits hm c = map_option Number (children (shortCircuits hm) c)"
| "accumulator Timeouts hm c = map_option Number (children (timeouts hm) c)"
| "accumulator FallbackSuccesses hm c = map_option Number (children (fallbackSuccesses hm) c)"
| "accumulator FallbackFailures hm c = map_option Number (children (fallbackFailures hm) c)"
| "accumulator TotalDuration hm c = map_option Number (children (totalDuration hm) c)"
| "accumulator RunDuration hm c = map_option Distribution (children (runDuration hm) c)"

fun series_desc :: "series \<Rightarrow> PrometheusCollector \<Rightarrow> Desc" where
  "series_desc Attempts hm = desc (attempts hm)"
| "series_desc Errors hm = desc (errors hm)"
| "series_desc Successes hm = desc (successes hm)"
| "series_desc Failures hm = desc (failures hm)"
| "series_desc Rejects hm = desc (rejects hm)"
| "series_desc ShortCircuits hm = desc (shortCircuits hm)"
| "series_desc Timeouts hm = desc (timeouts hm)"
| "series_desc FallbackSuccesses hm = desc (fallbackSuccesses hm)"
| "series_desc FallbackFailures hm = desc (fallbackFailures hm)"
| "series_desc TotalDuration hm = desc (totalDuration hm)"
| "series_desc RunDuration hm = desc (runDuration hm)"

definition counters :: "series list" where
  "counters = [Attempts, Errors, Successes, Failures, Rejects, ShortCircuits, Timeouts,
               FallbackSuccesses, FallbackFailures]"

text \<open>The methods of the \<^verbatim>\<open>MetricCollector\<close> interface that a \<^verbatim>\<open>cmdCollector\<close>
  implements, as the calls the command engine can make on it.\<close>

datatype call =
    CallIncrementAttempts
  | CallIncrementErrors
  | CallIncrementSuccesses
  | CallIncrementFailures
  | CallIncrementRejects
  | CallIncrementShortCircuits
  | CallIncrementTimeouts
  | CallIncrementFallbackSuccesses
  | CallIncrementFallbackFailures
  | CallUpdateTotalDuration Duration
  | CallUpdateRunDuration Duration
  | CallReset

fun invoke :: "cmdCollector \<Rightarrow> call \<Rightarrow> PrometheusCollector \<Rightarrow> PrometheusCollector" where
  "invoke hc CallIncrementAttempts hm = IncrementAttempts hc hm"
| "invoke hc CallIncrementErrors hm = IncrementErrors hc hm"
| "invoke hc CallIncrementSuccesses hm = IncrementSuccesses hc hm"
| "invoke hc CallIncrementFailures hm = IncrementFailures hc hm"
| "invoke hc CallIncrementRejects hm = IncrementRejects hc hm"
| "invoke hc CallIncrementShortCircuits hm = IncrementShortCircuits hc hm"
| "invoke hc CallIncrementTimeouts hm = IncrementTimeouts hc hm"
| "invoke hc CallIncrementFallbackSuccesses hm = IncrementFallbackSuccesses hc hm"
| "invoke hc CallIncrementFallbackFailures hm = IncrementFallbackFailures hc hm"
| "invoke hc (CallUpdateTotalDuration d) hm = UpdateTotalDuration hc d hm"
| "invoke hc (CallUpdateRunDuration d) hm = UpdateRunDuration hc d hm"
| "invoke hc CallReset hm = Reset hc hm"

text \<open>The series a call writes to; \<^verbatim>\<open>Reset\<close> writes to none.\<close>

fun target :: "call \<Rightarrow> series option" where
  "target CallIncrementAttempts = Some Attempts"
| "target CallIncrementErrors = Some Errors"
| "target CallIncrementSuccesses = Some Successes"
| "target CallIncrementFailures = Some Failures"
| "target CallIncrementRejects = Some Rejects"
| "target CallIncrementShortCircuits = Some ShortCircuits"
| "target CallIncrementTimeouts = Some Timeouts"
| "target CallIncrementFallbackSuccesses = Some FallbackSuccesses"
| "target CallIncrementFallbackFailures = Some FallbackFailures"
| "target (CallUpdateTotalDuration d) = Some TotalDuration"
| "target (CallUpdateRunDuration d) = Some RunDuration"
| "target CallReset = None"

text \<open>A run of the command engine against one collector: it asks for a recorder of a
  command name, or calls a method on a recorder it holds. A recorder is its command name,
  so a step names the command.\<close>

datatype step = NewRecorder string | On string call

fun exec_step :: "step \<Rightarrow> PrometheusCollector \<Rightarrow> error + PrometheusCollector" where
  "exec_step (NewRecorder name) hm =
     (case Collector name hm of Inl e \<Rightarrow> Inl e | Inr (hc, hm') \<Rightarrow> Inr hm')"
| "exec_step (On name c) hm = Inr (invoke \<lparr>commandName = name\<rparr> c hm)"

fun exec :: "step list \<Rightarrow> PrometheusCollector \<Rightarrow> error + PrometheusCollector" where
  "exec [] hm = Inr hm"
| "exec (s # ss) hm = (case exec_step s hm of Inl e \<Rightarrow> Inl e | Inr hm' \<Rightarrow> exec ss hm')"

subsection \<open>Auxiliary notions for the statements\<close>

text \<open>The child \<^verbatim>\<open>WithLabelValues\<close> hands out for a label value.\<close>

definition child :: "'a \<Rightarrow> string \<Rightarrow> ('a, 'b) MetricVec_scheme \<Rightarrow> 'a" where
  "child newMetric lv v = fst (WithLabelValues newMetric lv v)"

text \<open>The collector after \<^verbatim>\<open>initCounters\<close> for a command name, written out.\<close>

definition zeroFill :: "string \<Rightarrow> PrometheusCollector \<Rightarrow> PrometheusCollector" where
  "zeroFill c hm =
     hm\<lparr>attempts := store c (child newCounter c (attempts hm)) (attempts hm),
        errors := store c (child newCounter c (errors hm)) (errors hm),
        successes := store c (child newCounter c (successes hm)) (successes hm),
        failures := store c (child newCounter c (failures hm)) (failures hm),
        rejects := store c (child newCounter c (rejects hm)) (rejects hm),
        shortCircuits := store c (child newCounter c (shortCircuits hm)) (shortCircuits hm),
        timeouts := store c (child newCounter c (timeouts hm)) (timeouts hm),
        fallbackSuccesses := store c (child newCounter c (fallbackSuccesses hm)) (fallbackSuccesses hm),
        fallbackFailures := store c (child newCounter c (fallbackFailures hm)) (fallbackFailures hm),
        totalDuration := store c 0 (totalDuration hm)\<rparr>"

text \<open>The collectors the constructor hands to \<^verbatim>\<open>MustRegister\<close>, in the order of the call;
  its two branches pass the same ones.\<close>

definition registered :: "PrometheusCollector \<Rightarrow> Desc list" where
  "registered hm =
     [desc (attempts hm),
      desc (errors hm),
      desc (failures hm),
      desc (rejects hm),
      desc (shortCircuits hm),
      desc (timeouts hm),
      desc (fallbackSuccesses hm),
      desc (fallbackFailures hm),
      desc (totalDuration hm),
      desc (runDuration hm)]"

text \<open>The registry a construction registers with: the one supplied, or the default one.\<close>

definition target_registry :: "nat option \<Rightarrow> World \<Rightarrow> Registry" where
  "target_registry reg w = (case reg of Some p \<Rightarrow> registries w p | None \<Rightarrow> DefaultRegisterer w)"

text \<open>A process whose default registry holds the given collectors and whose other
  registries are empty.\<close>

definition world0 :: "Registry \<Rightarrow> World" where
  "world0 r = \<lparr>DefaultRegisterer = r, registries = (\<lambda>p. [])\<rparr>"

text \<open>The accumulator of a series and a label value at the end of a run.\<close>

definition reading :: "series \<Rightarrow> string \<Rightarrow> error + PrometheusCollector \<Rightarrow> error + sample option" where
  "reading s c r = (case r of Inl e \<Rightarrow> Inl e | Inr hm \<Rightarrow> Inr (accumulator s hm c))"



text \<open>A collector collides with a registry that holds its fully-qualified name; a collector
  some other part of the process registered under a name.\<close>

definition collides :: "Registry \<Rightarrow> Desc \<Rightarrow> bool" where
  "collides r d = (fqName d \<in> set (map fqName r))"

definition foreign :: "string \<Rightarrow> Desc" where
  "foreign n = \<lparr>fqName = n, helpString = ''Registered by another collector.'', variableLabels = []\<rparr>"

section \<open>Properties\<close>

subsection \<open>The library calls\<close>

lemma Seconds_eq: "Seconds d = real_of_int d / 1000000000"
proof -
  have "real_of_int (d sdiv Second * Second + d smod Second) = real_of_int d"
    by (simp only: sdiv_mult_smod_eq)
  then have "real_of_int (d sdiv Second) * 1000000000 + real_of_int (d smod Second) = real_of_int d"
    by (simp add: Second_def)
  then show ?thesis
    by (simp add: Seconds_def Let_def Second_def field_simps)
qed

lemma child_eq: "child new lv v = (case children v lv of Some m \<Rightarrow> m | None \<Rightarrow> new)"
  by (simp add: child_def WithLabelValues_def split: option.splits)

lemma vec_Add_zero: "vec_Add lv 0 v = Inr (store lv (child newCounter lv v) v)"
  by (simp add: vec_Add_def WithLabelValues_def store_def Counter_Add_def child_def
      split: option.splits)

lemma vec_Inc_eq: "vec_Inc lv v = store lv (child newCounter lv v + 1) v"
  by (simp add: vec_Inc_def WithLabelValues_def store_def Counter_Inc_def child_def
      split: option.splits)

lemma vec_Set_eq: "vec_Set lv x v = store lv x v"
  by (simp add: vec_Set_def WithLabelValues_def store_def Gauge_Set_def
      split: option.splits)

lemma vec_Observe_eq:
  "vec_Observe lv x v = store lv (Histogram_Observe x (child (newHistogram (buckets v)) lv v)) v"
  by (simp add: vec_Observe_def WithLabelValues_def store_def child_def
      split: option.splits)

lemma children_store: "children (store lv m v) = (children v)(lv \<mapsto> m)"
  by (simp add: store_def)

lemma desc_store: "desc (store lv m v) = desc v"
  by (simp add: store_def)

lemma buckets_store: "buckets (store lv m v) = buckets v"
  by (simp add: store_def)

subsection \<open>Registration\<close>

lemma MustRegister_eq:
  "distinct (map fqName cs) \<Longrightarrow>
   MustRegister cs r =
     (case find (collides r) cs of
        None \<Rightarrow> (Inr (), r @ cs)
      | Some d \<Rightarrow> (Inl (RegistrationConflict (fqName d)), r @ takeWhile (\<lambda>d. \<not> collides r d) cs))"
proof (induction cs arbitrary: r)
  case Nil
  then show ?case by simp
next
  case (Cons c cs)
  show ?case
  proof (cases "collides r c")
    case True
    then show ?thesis
      by (simp add: Register_def collides_def)
  next
    case False
    have new: "fqName c \<notin> fqName ` set cs"
      using Cons.prems by simp
    have same: "collides (r @ [c]) d = collides r d" if "d \<in> set cs" for d
    proof -
      from that new have "fqName d \<noteq> fqName c"
        by (metis imageI)
      then show ?thesis
        by (simp add: collides_def)
    qed
    then have "find (collides (r @ [c])) cs = find (collides r) cs"
      by (auto intro: find_cong)
    moreover have "takeWhile (\<lambda>d. \<not> collides (r @ [c]) d) cs = takeWhile (\<lambda>d. \<not> collides r d) cs"
      using same by (auto intro: takeWhile_cong)
    moreover have "MustRegister (c # cs) r = MustRegister cs (r @ [c])"
      using False by (simp add: Register_def collides_def)
    moreover have "distinct (map fqName cs)"
      using Cons.prems by simp
    ultimately show ?thesis
      using False Cons.IH [of "r @ [c]"] by (simp split: option.splits)
  qed
qed

lemma registered_names:
  "map fqName (registered (newVecs bs)) =
     [''hystrix_go_attempts'', ''hystrix_go_errors'', ''hystrix_go_failures'',
      ''hystrix_go_rejects'', ''hystrix_go_short_circuits'', ''hystrix_go_timeouts'',
      ''hystrix_go_fallback_successes'', ''hystrix_go_fallback_failures'',
      ''hystrix_go_total_duration_seconds'', ''hystrix_go_run_duration_seconds'']"
  by (simp add: registered_def newVecs_def NewCounterVec_def NewGaugeVec_def NewHistogramVec_def
      BuildFQName_def PROMETHEUS_NAMESPACE_def)

lemma successes_name: "fqName (desc (successes (newVecs bs))) = ''hystrix_go_successes''"
  by (simp add: newVecs_def NewCounterVec_def BuildFQName_def PROMETHEUS_NAMESPACE_def)

lemma registered_distinct: "distinct (map fqName (registered (newVecs bs)))"
  by (simp add: registered_names)

lemma NewPrometheusCollector_eq:
  "NewPrometheusCollector reg dbs w =
     (let hm = newVecs (case dbs of None \<Rightarrow> DefBuckets | Some bs \<Rightarrow> bs);
          out = MustRegister (registered hm) (target_registry reg w);
          w' = (case reg of Some p \<Rightarrow> w\<lparr>registries := (registries w)(p := snd out)\<rparr>
                | None \<Rightarrow> w\<lparr>DefaultRegisterer := snd out\<rparr>)
      in (case fst out of Inl e \<Rightarrow> Inl e | Inr u \<Rightarrow> Inr hm, w'))"
proof -
  let ?hm = "newVecs (case dbs of None \<Rightarrow> DefBuckets | Some bs \<Rightarrow> bs)"
  obtain res r' where out: "MustRegister (registered ?hm) (target_registry reg w) = (res, r')"
    by (cases "MustRegister (registered ?hm) (target_registry reg w)")
  show ?thesis
  proof (cases reg)
    case None
    with out show ?thesis
      unfolding NewPrometheusCollector_def Let_def registered_def [symmetric]
      by (cases res) (simp_all add: target_registry_def)
  next
    case (Some p)
    with out show ?thesis
      unfolding NewPrometheusCollector_def Let_def registered_def [symmetric]
      by (cases res) (simp_all add: target_registry_def)
  qed
qed

lemma target_after:
  "target_registry reg (snd (NewPrometheusCollector reg dbs w)) =
     snd (MustRegister (registered (newVecs (case dbs of None \<Rightarrow> DefBuckets | Some bs \<Rightarrow> bs)))
            (target_registry reg w))"
  by (simp add: NewPrometheusCollector_eq Let_def target_registry_def split: option.splits)

lemma result_after:
  "fst (NewPrometheusCollector reg dbs w) =
     (case fst (MustRegister (registered (newVecs (case dbs of None \<Rightarrow> DefBuckets | Some bs \<Rightarrow> bs)))
                 (target_registry reg w)) of
        Inl e \<Rightarrow> Inl e
      | Inr u \<Rightarrow> Inr (newVecs (case dbs of None \<Rightarrow> DefBuckets | Some bs \<Rightarrow> bs)))"
  by (simp add: NewPrometheusCollector_eq Let_def)

subsection \<open>The factory\<close>

lemma initCounters_eq: "initCounters hc hm = Inr (zeroFill (commandName hc) hm)"
  by (simp add: initCounters_def seq_def vec_Add_zero vec_Set_eq zeroFill_def Let_def)

lemma Collector_eq: "Collector name hm = Inr (\<lparr>commandName = name\<rparr>, zeroFill name hm)"
  by (simp add: Collector_def initCounters_eq)

lemmas method_defs =
  IncrementAttempts_def IncrementErrors_def IncrementSuccesses_def IncrementFailures_def
  IncrementRejects_def IncrementShortCircuits_def IncrementTimeouts_def
  IncrementFallbackSuccesses_def IncrementFallbackFailures_def UpdateTotalDuration_def
  UpdateRunDuration_def Reset_def

lemmas vec_eqs = vec_Inc_eq vec_Set_eq vec_Observe_eq children_store desc_store buckets_store

lemmas acc = accumulator.simps

declare accumulator.simps [simp del]

subsection \<open>The recorder\<close>

lemma invoke_frame:
  "target k \<noteq> Some s \<or> b \<noteq> commandName hc \<Longrightarrow>
   accumulator s (invoke hc k hm) b = accumulator s hm b"
  by (cases k; cases s; simp add: acc method_defs vec_eqs)

lemma invoke_counter:
  "target k = Some K \<Longrightarrow> K \<in> set counters \<Longrightarrow>
   accumulator K hm (commandName hc) = Some (Number v) \<Longrightarrow>
   accumulator K (invoke hc k hm) (commandName hc) = Some (Number (v + 1))"
  by (cases k; cases K; auto simp add: acc method_defs vec_eqs counters_def child_eq newCounter_def split: option.splits)

lemma zeroFill_other:
  "b \<noteq> c \<Longrightarrow> accumulator s (zeroFill c hm) b = accumulator s hm b"
  by (cases s; simp add: acc zeroFill_def children_store)

lemma zeroFill_counter_old:
  "K \<in> set counters \<Longrightarrow> accumulator K hm c = Some v \<Longrightarrow> accumulator K (zeroFill c hm) c = Some v"
  by (cases K; auto simp add: acc zeroFill_def children_store counters_def child_eq)

lemma zeroFill_counter_new:
  "K \<in> set counters \<Longrightarrow> accumulator K hm c = None \<Longrightarrow>
   accumulator K (zeroFill c hm) c = Some (Number 0)"
  by (cases K; auto simp add: acc zeroFill_def children_store counters_def child_eq newCounter_def)

lemma zeroFill_gauge: "accumulator TotalDuration (zeroFill c hm) c = Some (Number 0)"
  by (simp add: acc zeroFill_def children_store)

lemma zeroFill_histogram: "accumulator RunDuration (zeroFill c hm) b = accumulator RunDuration hm b"
  by (simp add: acc zeroFill_def)

lemma exec_NewRecorder: "exec (NewRecorder c # ss) hm = exec ss (zeroFill c hm)"
  by (simp add: Collector_eq)

lemma exec_On: "exec (On c k # ss) hm = exec ss (invoke \<lparr>commandName = c\<rparr> k hm)"
  by simp

lemma newVecs_empty: "accumulator s (newVecs bs) c = None"
  by (cases s; simp add: acc newVecs_def NewCounterVec_def NewGaugeVec_def NewHistogramVec_def)

subsection \<open>Counting the calls of a run\<close>

lemma target_counter_unique:
  "target k = Some K \<Longrightarrow> target k' = Some K \<Longrightarrow> K \<in> set counters \<Longrightarrow> k' = k"
  by (cases k; cases k'; auto simp add: counters_def)

lemma exec_step_counter:
  assumes "target k = Some K" and "K \<in> set counters"
    and "accumulator K hm c = Some (Number v)"
  shows "\<exists>hm'. exec_step s hm = Inr hm'
           \<and> accumulator K hm' c = Some (Number (v + real (count_list [s] (On c k))))"
proof (cases s)
  case (NewRecorder n)
  show ?thesis
  proof (cases "n = c")
    case True
    with assms NewRecorder show ?thesis
      by (simp add: Collector_eq zeroFill_counter_old)
  next
    case False
    with assms NewRecorder show ?thesis
      by (simp add: Collector_eq zeroFill_other)
  qed
next
  case (On n k')
  show ?thesis
  proof (cases "n = c \<and> k' = k")
    case True
    with assms On invoke_counter [of k K hm "\<lparr>commandName = c\<rparr>" v] show ?thesis
      by simp
  next
    case False
    with assms have "target k' \<noteq> Some K \<or> c \<noteq> n"
      using target_counter_unique [of k K k'] by auto
    with assms On False invoke_frame [of k' K c "\<lparr>commandName = n\<rparr>" hm] show ?thesis
      by auto
  qed
qed

lemma exec_counter:
  assumes "target k = Some K" and "K \<in> set counters"
  shows "accumulator K hm c = Some (Number v) \<Longrightarrow>
         \<exists>hm'. exec ss hm = Inr hm'
           \<and> accumulator K hm' c = Some (Number (v + real (count_list ss (On c k))))"
proof (induction ss arbitrary: hm v)
  case Nil
  then show ?case by simp
next
  case (Cons s ss)
  from exec_step_counter [OF assms Cons.prems, of s] obtain hm1 where
    step: "exec_step s hm = Inr hm1" and
    val1: "accumulator K hm1 c = Some (Number (v + real (count_list [s] (On c k))))"
    by blast
  from Cons.IH [OF val1] obtain hm' where
    "exec ss hm1 = Inr hm'" and
    "accumulator K hm' c =
       Some (Number (v + real (count_list [s] (On c k)) + real (count_list ss (On c k))))"
    by blast
  with step show ?case
    by (simp add: add.assoc)
qed

subsection \<open>Observations of a histogram\<close>












section \<open>The claims\<close>

text \<open>C10: \<^verbatim>\<open>Reset\<close> on a recorder does nothing: the collector is the same afterwards, and so
  is every accumulator of every series and command name, counters, gauge and histogram
  (buckets, sum and count) alike.\<close>

theorem Reset_is_noop:
  "Reset hc hm = hm \<and> accumulator s (Reset hc hm) c = accumulator s hm c"
  by (simp add: Reset_def)

text \<open>C7: after \<^verbatim>\<open>UpdateTotalDuration(d1)\<close> and then \<^verbatim>\<open>UpdateTotalDuration(d2)\<close> on a
  recorder, the gauge of the recorder's command holds \<open>d2\<close> in seconds (its nanoseconds
  divided by \<open>10\<^sup>9\<close>), whatever \<open>d1\<close> was.\<close>

theorem UpdateTotalDuration_overwrites:
  "accumulator TotalDuration (UpdateTotalDuration hc d2 (UpdateTotalDuration hc d1 hm)) (commandName hc)
     = Some (Number (Seconds d2))
   \<and> Seconds d2 = real_of_int d2 / 1000000000"
  by (simp add: acc UpdateTotalDuration_def vec_Set_eq children_store Seconds_eq)

text \<open>C9: a call on a recorder bound to command \<open>a\<close> changes at most the accumulator of its
  target series for the label \<open>a\<close>: the accumulator of any series for another command, and
  of any other series for \<open>a\<close>, is what it was.\<close>

theorem event_frame:
  "target k \<noteq> Some s \<or> b \<noteq> commandName hc \<Longrightarrow>
   accumulator s (invoke hc k hm) b = accumulator s hm b"
  by (rule invoke_frame)

theorem event_frame_witness:
  "reading Attempts ''b'' (exec [NewRecorder ''a'', NewRecorder ''b'', On ''a'' CallIncrementAttempts]
      (newVecs DefBuckets)) = Inr (Some (Number 0))
   \<and> reading Errors ''a'' (exec [NewRecorder ''a'', NewRecorder ''b'', On ''a'' CallIncrementAttempts]
      (newVecs DefBuckets)) = Inr (Some (Number 0))"
proof -
  let ?hm = "zeroFill ''b'' (zeroFill ''a'' (newVecs DefBuckets))"
  let ?hc = "\<lparr>commandName = ''a''\<rparr>"
  have other_label: "target CallIncrementAttempts \<noteq> Some Attempts \<or> ''b'' \<noteq> commandName ?hc"
    by simp
  have other_series: "target CallIncrementAttempts \<noteq> Some Errors \<or> ''a'' \<noteq> commandName ?hc"
    by simp
  have "accumulator Attempts (invoke ?hc CallIncrementAttempts ?hm) ''b'' = accumulator Attempts ?hm ''b''"
    by (rule event_frame [OF other_label])
  moreover have "accumulator Errors (invoke ?hc CallIncrementAttempts ?hm) ''a'' = accumulator Errors ?hm ''a''"
    by (rule event_frame [OF other_series])
  moreover have "accumulator Attempts ?hm ''b'' = Some (Number 0)"
    by (simp add: zeroFill_counter_new zeroFill_other newVecs_empty counters_def)
  moreover have "accumulator Errors ?hm ''a'' = Some (Number 0)"
    by (simp add: zeroFill_counter_new zeroFill_other newVecs_empty counters_def)
  ultimately show ?thesis
    by (simp only: exec_NewRecorder exec_On exec.simps(1) reading_def sum.case)
qed



text \<open>C2, as the program has it: a factory call for a command name leaves the value each of
  the nine counters already holds for that name as it is, sets the gauge of that name to
  zero, and does not touch the histogram.\<close>

theorem Collector_keeps_counters_zeroes_gauge:
  "\<exists>hm'. Collector name hm = Inr (\<lparr>commandName = name\<rparr>, hm')
     \<and> (\<forall>K v. K \<in> set counters \<and> accumulator K hm name = Some v \<longrightarrow> accumulator K hm' name = Some v)
     \<and> accumulator TotalDuration hm' name = Some (Number 0)
     \<and> accumulator RunDuration hm' name = accumulator RunDuration hm name"
  by (simp add: Collector_eq zeroFill_gauge zeroFill_histogram zeroFill_counter_old)

theorem Collector_keeps_counters_zeroes_gauge_witness:
  "Attempts \<in> set counters
   \<and> accumulator Attempts (IncrementAttempts \<lparr>commandName = ''a''\<rparr> (zeroFill ''a'' (newVecs DefBuckets))) ''a''
       = Some (Number 1)
   \<and> reading Attempts ''a''
       (exec [NewRecorder ''a'', On ''a'' CallIncrementAttempts, NewRecorder ''a''] (newVecs DefBuckets))
       = Inr (Some (Number 1))"
proof -
  let ?hm = "IncrementAttempts \<lparr>commandName = ''a''\<rparr> (zeroFill ''a'' (newVecs DefBuckets))"
  have K: "Attempts \<in> set counters"
    by (simp add: counters_def)
  have before: "accumulator Attempts ?hm ''a'' = Some (Number 1)"
    using invoke_counter [of CallIncrementAttempts Attempts "zeroFill ''a'' (newVecs DefBuckets)" "\<lparr>commandName = ''a''\<rparr>" 0]
    by (simp add: K zeroFill_counter_new newVecs_empty)
  from Collector_keeps_counters_zeroes_gauge [of "''a''" ?hm] obtain hm' where
    run: "Collector ''a'' ?hm = Inr (\<lparr>commandName = ''a''\<rparr>, hm')" and
    keep: "\<forall>K v. K \<in> set counters \<and> accumulator K ?hm ''a'' = Some v \<longrightarrow> accumulator K hm' ''a'' = Some v"
    by blast
  from keep K before have "accumulator Attempts hm' ''a'' = Some (Number 1)"
    by blast
  with run have "reading Attempts ''a'' (exec [NewRecorder ''a''] ?hm) = Inr (Some (Number 1))"
    by (simp add: reading_def)
  then have "reading Attempts ''a''
       (exec [NewRecorder ''a'', On ''a'' CallIncrementAttempts, NewRecorder ''a''] (newVecs DefBuckets))
       = Inr (Some (Number 1))"
    by (simp add: Collector_eq)
  with K before show ?thesis by simp
qed

text \<open>C2, as stated, fails for the gauge: a recorder for \<open>a\<close> sets the gauge to 1.5 seconds,
  and a second factory call for \<open>a\<close> puts it back to zero.\<close>

theorem Collector_again_resets_gauge_counterexample:
  "reading TotalDuration ''a''
     (exec [NewRecorder ''a'', On ''a'' (CallUpdateTotalDuration 1500000000)] (newVecs DefBuckets))
     = Inr (Some (Number (3 / 2)))
   \<and> reading TotalDuration ''a''
     (exec [NewRecorder ''a'', On ''a'' (CallUpdateTotalDuration 1500000000), NewRecorder ''a'']
        (newVecs DefBuckets))
     = Inr (Some (Number 0))"
proof -
  have "accumulator TotalDuration
          (UpdateTotalDuration \<lparr>commandName = ''a''\<rparr> 1500000000 (zeroFill ''a'' (newVecs DefBuckets))) ''a''
        = Some (Number (3 / 2))"
    by (simp add: acc UpdateTotalDuration_def vec_eqs Seconds_eq)
  then show ?thesis
    by (simp add: Collector_eq reading_def zeroFill_gauge)
qed




text \<open>C6: for a counter series \<open>K\<close>, its record operation \<open>k\<close> and a command name \<open>c\<close> that \<open>K\<close>
  has no accumulator for: after the factory call for \<open>c\<close> and any run of further steps
  (factory calls and calls of any method for any command name, in any order), the value of
  \<open>K\<close> for \<open>c\<close> is the number of calls of \<open>k\<close> on recorders of \<open>c\<close> in the run; and one
  call of \<open>k\<close> on a recorder of \<open>c\<close> takes the value \<open>v\<close> of \<open>K\<close> for \<open>c\<close> to \<open>v + 1\<close>.\<close>

theorem counter_counts_its_calls:
  assumes "target k = Some K" and "K \<in> set counters" and "accumulator K hm c = None"
  shows "(\<exists>hm'. exec (NewRecorder c # rest) hm = Inr hm'
            \<and> accumulator K hm' c = Some (Number (real (count_list rest (On c k)))))
         \<and> (\<forall>hm1 v. accumulator K hm1 c = Some (Number v) \<longrightarrow>
               accumulator K (invoke \<lparr>commandName = c\<rparr> k hm1) c = Some (Number (v + 1)))"
proof
  have "accumulator K (zeroFill c hm) c = Some (Number 0)"
    using assms by (simp add: zeroFill_counter_new)
  from exec_counter [OF assms(1,2) this, of rest]
  show "\<exists>hm'. exec (NewRecorder c # rest) hm = Inr hm'
            \<and> accumulator K hm' c = Some (Number (real (count_list rest (On c k))))"
    by (simp add: Collector_eq)
next
  show "\<forall>hm1 v. accumulator K hm1 c = Some (Number v) \<longrightarrow>
          accumulator K (invoke \<lparr>commandName = c\<rparr> k hm1) c = Some (Number (v + 1))"
    using invoke_counter [OF assms(1,2), of _ "\<lparr>commandName = c\<rparr>"] by simp
qed

theorem counter_counts_its_calls_witness:
  "target CallIncrementAttempts = Some Attempts \<and> Attempts \<in> set counters
   \<and> accumulator Attempts (newVecs DefBuckets) ''orders'' = None
   \<and> reading Attempts ''orders''
       (exec [NewRecorder ''orders'', On ''orders'' CallIncrementAttempts, NewRecorder ''users'',
              On ''users'' CallIncrementAttempts, On ''orders'' CallIncrementSuccesses,
              On ''orders'' CallIncrementAttempts, On ''orders'' (CallUpdateRunDuration 250000000)]
          (newVecs DefBuckets))
     = Inr (Some (Number 2))"
proof -
  have t: "target CallIncrementAttempts = Some Attempts"
    by simp
  have K: "Attempts \<in> set counters"
    by (simp add: counters_def)
  have fresh: "accumulator Attempts (newVecs DefBuckets) ''orders'' = None"
    by (rule newVecs_empty)
  from counter_counts_its_calls [OF t K fresh,
      of "[On ''orders'' CallIncrementAttempts, NewRecorder ''users'',
              On ''users'' CallIncrementAttempts, On ''orders'' CallIncrementSuccesses,
              On ''orders'' CallIncrementAttempts, On ''orders'' (CallUpdateRunDuration 250000000)]"]
  obtain hm' where
    "exec [NewRecorder ''orders'', On ''orders'' CallIncrementAttempts, NewRecorder ''users'',
              On ''users'' CallIncrementAttempts, On ''orders'' CallIncrementSuccesses,
              On ''orders'' CallIncrementAttempts, On ''orders'' (CallUpdateRunDuration 250000000)]
          (newVecs DefBuckets) = Inr hm'"
    and "accumulator Attempts hm' ''orders'' = Some (Number 2)"
    by auto
  with t K fresh show ?thesis
    by (simp only: reading_def sum.case simp_thms)
qed



text \<open>C1: the constructor, called without a registry and without buckets in a process
  whose registries are empty, returns the collector and leaves ten descriptors in the
  default registry. The successes counter, made with the name \<^verbatim>\<open>hystrix_go_successes\<close>,
  is not among them; neither is it in a registry the caller supplies.\<close>

theorem successes_not_registered:
  "NewPrometheusCollector None None (world0 []) =
     (Inr (newVecs DefBuckets), world0 (registered (newVecs DefBuckets)))
   \<and> map fqName (registered (newVecs DefBuckets)) =
     [''hystrix_go_attempts'', ''hystrix_go_errors'', ''hystrix_go_failures'',
      ''hystrix_go_rejects'', ''hystrix_go_short_circuits'', ''hystrix_go_timeouts'',
      ''hystrix_go_fallback_successes'', ''hystrix_go_fallback_failures'',
      ''hystrix_go_total_duration_seconds'', ''hystrix_go_run_duration_seconds'']
   \<and> fqName (series_desc Successes (newVecs DefBuckets)) = ''hystrix_go_successes''
   \<and> ''hystrix_go_successes'' \<notin>
       set (map fqName (target_registry None (snd (NewPrometheusCollector None None (world0 [])))))
   \<and> ''hystrix_go_successes'' \<notin>
       set (map fqName (target_registry (Some 0) (snd (NewPrometheusCollector (Some 0) None (world0 [])))))"
proof -
  have "find (collides []) (registered (newVecs DefBuckets)) = None"
    by (simp add: find_None_iff collides_def)
  then have m: "MustRegister (registered (newVecs DefBuckets)) [] = (Inr (), registered (newVecs DefBuckets))"
    by (simp add: MustRegister_eq [OF registered_distinct])
  have t: "target_registry reg (world0 []) = []" for reg
    by (simp add: target_registry_def world0_def split: option.splits)
  have built: "NewPrometheusCollector None None (world0 []) =
     (Inr (newVecs DefBuckets), world0 (registered (newVecs DefBuckets)))"
    by (simp add: NewPrometheusCollector_eq t m Let_def) (simp add: world0_def)
  have missing: "''hystrix_go_successes'' \<notin>
       set (map fqName (target_registry reg (snd (NewPrometheusCollector reg None (world0 [])))))" for reg
    by (simp add: target_after t m registered_names)
  have name: "fqName (series_desc Successes (newVecs DefBuckets)) = ''hystrix_go_successes''"
    by (simp add: successes_name)
  from built registered_names [of DefBuckets] name missing [of None] missing [of "Some 0"]
  show ?thesis
    by (intro conjI)
qed

text \<open>C4, as the program has it: when the registry the constructor registers with already
  holds the name of one of the series the constructor hands to it, the constructor panics
  with the conflict of the first such series in the order of registration. The series
  before that one are registered and stay so; that series and the ones after it are not.\<close>

theorem conflict_keeps_earlier_series:
  assumes "\<exists>d \<in> set (registered (newVecs (case dbs of None \<Rightarrow> DefBuckets | Some bs \<Rightarrow> bs))).
             collides (target_registry reg w) d"
  shows "\<exists>d. find (collides (target_registry reg w))
               (registered (newVecs (case dbs of None \<Rightarrow> DefBuckets | Some bs \<Rightarrow> bs))) = Some d
           \<and> fst (NewPrometheusCollector reg dbs w) = Inl (RegistrationConflict (fqName d))
           \<and> target_registry reg (snd (NewPrometheusCollector reg dbs w)) =
               target_registry reg w @
               takeWhile (\<lambda>d. \<not> collides (target_registry reg w) d)
                 (registered (newVecs (case dbs of None \<Rightarrow> DefBuckets | Some bs \<Rightarrow> bs)))"
proof -
  let ?cs = "registered (newVecs (case dbs of None \<Rightarrow> DefBuckets | Some bs \<Rightarrow> bs))"
  from assms have "find (collides (target_registry reg w)) ?cs \<noteq> None"
    by (simp add: find_None_iff) blast
  then obtain d where d: "find (collides (target_registry reg w)) ?cs = Some d"
    by blast
  then show ?thesis
    by (simp add: result_after target_after MustRegister_eq [OF registered_distinct])
qed

theorem conflict_keeps_earlier_series_witness:
  "(\<exists>d \<in> set (registered (newVecs DefBuckets)).
      collides (target_registry None (world0 [foreign ''hystrix_go_timeouts''])) d)
   \<and> fst (NewPrometheusCollector None None (world0 [foreign ''hystrix_go_timeouts'']))
       = Inl (RegistrationConflict ''hystrix_go_timeouts'')
   \<and> map fqName (target_registry None
        (snd (NewPrometheusCollector None None (world0 [foreign ''hystrix_go_timeouts'']))))
       = [''hystrix_go_timeouts'', ''hystrix_go_attempts'', ''hystrix_go_errors'',
          ''hystrix_go_failures'', ''hystrix_go_rejects'', ''hystrix_go_short_circuits'']"
proof -
  let ?w = "world0 [foreign ''hystrix_go_timeouts'']"
  let ?cs = "registered (newVecs DefBuckets)"
  have r: "target_registry None ?w = [foreign ''hystrix_go_timeouts'']"
    by (simp add: target_registry_def world0_def)
  have c: "collides [foreign ''hystrix_go_timeouts''] d = (fqName d = ''hystrix_go_timeouts'')" for d
    by (simp add: collides_def foreign_def)
  have hyp: "\<exists>d \<in> set (registered (newVecs (case None of None \<Rightarrow> DefBuckets | Some bs \<Rightarrow> bs))).
             collides (target_registry None ?w) d"
    by (simp add: r c registered_def newVecs_def NewCounterVec_def BuildFQName_def
        PROMETHEUS_NAMESPACE_def)
  from conflict_keeps_earlier_series [OF hyp] obtain d where
    first: "find (collides (target_registry None ?w)) ?cs = Some d" and
    res: "fst (NewPrometheusCollector None None ?w) = Inl (RegistrationConflict (fqName d))" and
    left: "target_registry None (snd (NewPrometheusCollector None None ?w)) =
             target_registry None ?w @ takeWhile (\<lambda>d. \<not> collides (target_registry None ?w) d) ?cs"
    by auto
  from first have "collides (target_registry None ?w) d"
    by (auto simp add: find_Some_iff)
  then have d: "fqName d = ''hystrix_go_timeouts''"
    by (simp add: r c)
  have "map fqName (takeWhile (\<lambda>d. \<not> collides (target_registry None ?w) d) ?cs) =
          takeWhile (\<lambda>n. n \<noteq> ''hystrix_go_timeouts'') (map fqName ?cs)"
    by (simp add: r c takeWhile_map comp_def)
  then have kept: "map fqName (takeWhile (\<lambda>d. \<not> collides (target_registry None ?w) d) ?cs) =
       [''hystrix_go_attempts'', ''hystrix_go_errors'',
        ''hystrix_go_failures'', ''hystrix_go_rejects'', ''hystrix_go_short_circuits'']"
    by (simp add: registered_names)
  have "map fqName (target_registry None (snd (NewPrometheusCollector None None ?w))) =
       map fqName [foreign ''hystrix_go_timeouts''] @
       map fqName (takeWhile (\<lambda>d. \<not> collides (target_registry None ?w) d) ?cs)"
    by (simp only: left r map_append)
  then have after: "map fqName (target_registry None (snd (NewPrometheusCollector None None ?w))) =
       [''hystrix_go_timeouts'', ''hystrix_go_attempts'', ''hystrix_go_errors'',
        ''hystrix_go_failures'', ''hystrix_go_rejects'', ''hystrix_go_short_circuits'']"
    by (simp only: kept) (simp add: foreign_def)
  have "\<exists>d \<in> set ?cs. collides (target_registry None ?w) d"
    using hyp by simp
  with res d after show ?thesis
    by simp
qed

text \<open>C4, as stated, fails: with the name of the errors series taken in the default
  registry, the constructor panics, and the attempts series, registered before the
  conflict, is left in the registry without the other series.\<close>

theorem partial_registration_counterexample:
  "fst (NewPrometheusCollector None None (world0 [foreign ''hystrix_go_errors'']))
       = Inl (RegistrationConflict ''hystrix_go_errors'')
   \<and> map fqName (DefaultRegisterer
        (snd (NewPrometheusCollector None None (world0 [foreign ''hystrix_go_errors'']))))
       = [''hystrix_go_errors'', ''hystrix_go_attempts'']"
proof -
  let ?w = "world0 [foreign ''hystrix_go_errors'']"
  let ?cs = "registered (newVecs DefBuckets)"
  have r: "target_registry None ?w = [foreign ''hystrix_go_errors'']"
    by (simp add: target_registry_def world0_def)
  have a: "Register (desc (attempts (newVecs DefBuckets))) [foreign ''hystrix_go_errors''] =
             Inr [foreign ''hystrix_go_errors'', desc (attempts (newVecs DefBuckets))]"
    by (simp add: Register_def foreign_def newVecs_def NewCounterVec_def BuildFQName_def
        PROMETHEUS_NAMESPACE_def)
  have e: "Register (desc (errors (newVecs DefBuckets)))
             [foreign ''hystrix_go_errors'', desc (attempts (newVecs DefBuckets))] =
             Inl (RegistrationConflict ''hystrix_go_errors'')"
    by (simp add: Register_def foreign_def newVecs_def NewCounterVec_def BuildFQName_def
        PROMETHEUS_NAMESPACE_def)
  have m: "MustRegister ?cs [foreign ''hystrix_go_errors''] =
             (Inl (RegistrationConflict ''hystrix_go_errors''),
              [foreign ''hystrix_go_errors'', desc (attempts (newVecs DefBuckets))])"
    by (simp add: registered_def a e)
  have n: "map fqName [foreign ''hystrix_go_errors'', desc (attempts (newVecs DefBuckets))] =
             [''hystrix_go_errors'', ''hystrix_go_attempts'']"
    by (simp add: foreign_def newVecs_def NewCounterVec_def BuildFQName_def PROMETHEUS_NAMESPACE_def)
  have "fst (NewPrometheusCollector None None ?w) = Inl (RegistrationConflict ''hystrix_go_errors'')"
    by (simp add: result_after r m)
  moreover have "target_registry None (snd (NewPrometheusCollector None None ?w)) =
      [foreign ''hystrix_go_errors'', desc (attempts (newVecs DefBuckets))]"
    by (simp add: target_after r m)
  then have "DefaultRegisterer (snd (NewPrometheusCollector None None ?w)) =
      [foreign ''hystrix_go_errors'', desc (attempts (newVecs DefBuckets))]"
    by (simp add: target_registry_def)
  ultimately show ?thesis
    by (simp only: n simp_thms)
qed

end
